theory Spec2Isabelle
  imports Main "HOL-Library.Word"
begin

section \<open>Configuration resolution (service.go, main and useEnvOrDefaultIfNotSet)\<close>

text \<open>
  A Go \<^verbatim>\<open>interface{}\<close> value carries its dynamic type. The model keeps the dynamic
  types that the source distinguishes: the nil interface, \<^verbatim>\<open>string\<close>,
  \<^verbatim>\<open>time.Duration\<close> (an int64 count of nanoseconds), \<^verbatim>\<open>bool\<close>, and any other type,
  kept by the name that \<^verbatim>\<open>%T\<close> prints for it.
\<close>

datatype iface =
    INil
  | IString string
  | IDuration "64 word"
  | IBool bool
  | IOther string

fun typeName :: "iface \<Rightarrow> string" where
  "typeName INil = ''<nil>''"
| "typeName (IString _) = ''string''"
| "typeName (IDuration _) = ''time.Duration''"
| "typeName (IBool _) = ''bool''"
| "typeName (IOther t) = t"

text \<open>
  A panic is a value: either the explicit \<^verbatim>\<open>panic(fmt.Sprintf(...))\<close> of the source, or
  the runtime panic of a failed type assertion \<^verbatim>\<open>x.(T)\<close>, which records the dynamic type
  found and the type asserted.
\<close>

datatype panic =
    PanicMessage string
  | InterfaceConversion string string

definition assertString :: "iface \<Rightarrow> panic + string" where
  "assertString x =
     (case x of IString s \<Rightarrow> Inr s | _ \<Rightarrow> Inl (InterfaceConversion (typeName x) ''string''))"

definition assertDuration :: "iface \<Rightarrow> panic + 64 word" where
  "assertDuration x =
     (case x of IDuration d \<Rightarrow> Inr d
      | _ \<Rightarrow> Inl (InterfaceConversion (typeName x) ''time.Duration''))"

definition assertBool :: "iface \<Rightarrow> panic + bool" where
  "assertBool x =
     (case x of IBool b \<Rightarrow> Inr b | _ \<Rightarrow> Inl (InterfaceConversion (typeName x) ''bool''))"

text \<open>
  \<^verbatim>\<open>useEnvOrDefaultIfNotSet\<close>, lines 79 to 96: the nil test, then the type switch with
  its three branches, then \<^verbatim>\<open>return envValue\<close>. The zero-duration branch returns
  \<^verbatim>\<open>defaultValue.(time.Duration)\<close>, a type assertion that can panic.
\<close>

definition useEnvOrDefaultIfNotSet :: "iface \<Rightarrow> iface \<Rightarrow> panic + iface" where
  "useEnvOrDefaultIfNotSet envValue defaultValue =
     (case envValue of
        INil \<Rightarrow> Inr defaultValue
      | IString v \<Rightarrow> if length v = 0 then Inr defaultValue else Inr envValue
      | IDuration v \<Rightarrow>
          if v = 0
          then (case assertDuration defaultValue of
                  Inl p \<Rightarrow> Inl p
                | Inr d \<Rightarrow> Inr (IDuration d))
          else Inr envValue
      | _ \<Rightarrow> Inl (PanicMessage (''unexpected type '' @ typeName envValue)))"

text \<open>
  The process environment is a partial map from names to values; \<^verbatim>\<open>os.Getenv\<close> returns
  the empty string for a variable that is not set.
\<close>

definition Getenv :: "(string \<rightharpoonup> string) \<Rightarrow> string \<Rightarrow> string" where
  "Getenv environ name = (case environ name of None \<Rightarrow> [] | Some v \<Rightarrow> v)"

definition Second :: "64 word" where
  "Second = 1000000000"

text \<open>
  The command line after \<^verbatim>\<open>flag.Parse\<close>: each of the three flags is either given, with
  its parsed value, or not given, in which case the flag keeps the default it was declared
  with.
\<close>

record Flags =
  address :: "string option"
  shutdown_timeout :: "64 word option"
  enable_logging_middleware :: "bool option"

record ServerConfig =
  ServiceName :: string
  ServerAddress :: string
  ShutdownTimeout :: "64 word"
  EnableLoggingMiddleware :: bool
  ServiceVersion :: string

text \<open>
  The three flag declarations of \<^verbatim>\<open>main\<close>, lines 56 to 59. The default of each flag is
  computed from the environment when the flag is declared, before \<^verbatim>\<open>flag.Parse\<close> runs:
  the result of \<^verbatim>\<open>useEnvOrDefaultIfNotSet\<close> is asserted to the flag's type.
\<close>

definition serverPortDefault :: "(string \<rightharpoonup> string) \<Rightarrow> panic + string" where
  "serverPortDefault environ =
     (case useEnvOrDefaultIfNotSet (IString (Getenv environ ''SERVER_ADDRESS''))
             (IString ''localhost:8080'') of
        Inl p \<Rightarrow> Inl p
      | Inr x \<Rightarrow> assertString x)"

definition shutdownTimeoutDefault :: "(string \<rightharpoonup> string) \<Rightarrow> panic + 64 word" where
  "shutdownTimeoutDefault environ =
     (case useEnvOrDefaultIfNotSet (IString (Getenv environ ''SHUTDOWN_TIMEOUT''))
             (IDuration (Second * 10)) of
        Inl p \<Rightarrow> Inl p
      | Inr x \<Rightarrow> assertDuration x)"

definition enableLoggingMiddlewareDefault :: "(string \<rightharpoonup> string) \<Rightarrow> panic + bool" where
  "enableLoggingMiddlewareDefault environ =
     (case useEnvOrDefaultIfNotSet (IString (Getenv environ ''ENABLE_LOGGING_MIDDLEWARE''))
             (IBool False) of
        Inl p \<Rightarrow> Inl p
      | Inr x \<Rightarrow> assertBool x)"

definition flagOr :: "'a option \<Rightarrow> 'a \<Rightarrow> 'a" where
  "flagOr given dflt = (case given of None \<Rightarrow> dflt | Some v \<Rightarrow> v)"

text \<open>
  \<^verbatim>\<open>main\<close> up to the construction of the \<^verbatim>\<open>ServerConfig\<close>, lines 55 to 70. The three
  defaults are evaluated in the order of the declarations; the first panic ends the
  process. The version string is the build-time global \<^verbatim>\<open>version\<close>.
\<close>

definition mainConfig :: "(string \<rightharpoonup> string) \<Rightarrow> Flags \<Rightarrow> string \<Rightarrow> panic + ServerConfig" where
  "mainConfig environ flags version =
     (case serverPortDefault environ of
        Inl p \<Rightarrow> Inl p
      | Inr serverPort \<Rightarrow>
     (case shutdownTimeoutDefault environ of
        Inl p \<Rightarrow> Inl p
      | Inr shutdownTimeout \<Rightarrow>
     (case enableLoggingMiddlewareDefault environ of
        Inl p \<Rightarrow> Inl p
      | Inr enableLoggingMiddleware \<Rightarrow>
          Inr \<lparr> ServiceName = ''key-value-service-v1'',
                ServerAddress = flagOr (address flags) serverPort,
                ShutdownTimeout = flagOr (shutdown_timeout flags) shutdownTimeout,
                EnableLoggingMiddleware =
                  flagOr (enable_logging_middleware flags) enableLoggingMiddleware,
                ServiceVersion = version \<rparr>)))"

definition noFlags :: Flags where
  "noFlags = \<lparr> address = None, shutdown_timeout = None, enable_logging_middleware = None \<rparr>"

section \<open>Wire shapes and the JSON decoding contract\<close>

type_synonym Key = string
type_synonym Value = string

record SetRequest =
  setKey :: Key
  setValue :: Value

record GetRequest =
  getKey :: Key

record GetResponse =
  respValue :: Value

text \<open>
  The JSON machinery of the standard library is outside the repository. The model keeps
  what the handlers need from it. A request body is represented by what the decoder's
  scanner makes of its first JSON value: either a syntax error with its message (an empty
  body is the error \<^verbatim>\<open>EOF\<close>), or the JSON document read. A JSON object keeps its members
  in the order of the text, duplicates included. A string of the document is the sequence
  of bytes that its literal denotes once the escapes are resolved; it need not be valid
  UTF-8.
\<close>

datatype json =
    JNull
  | JBool bool
  | JNumber string
  | JString string
  | JArray "json list"
  | JObject "(string \<times> json) list"

datatype body = Malformed string | Document json

text \<open>
  The errors of \<^verbatim>\<open>Decode\<close>: a syntax error, or an \<^verbatim>\<open>UnmarshalTypeError\<close> with the
  description of the JSON value, the Go type it could not be stored in, and the struct and
  field names when the value was a struct member.
\<close>

datatype decode_error =
    SyntaxError string
  | UnmarshalTypeError string string string string

fun errorText :: "decode_error \<Rightarrow> string" where
  "errorText (SyntaxError msg) = msg"
| "errorText (UnmarshalTypeError v ty struct field) =
     (if struct \<noteq> [] \<or> field \<noteq> []
      then ''json: cannot unmarshal '' @ v @ '' into Go struct field '' @ struct @ ''.'' @ field
             @ '' of type '' @ ty
      else ''json: cannot unmarshal '' @ v @ '' into Go value of type '' @ ty)"

fun jsonKind :: "json \<Rightarrow> string" where
  "jsonKind JNull = ''null''"
| "jsonKind (JBool _) = ''bool''"
| "jsonKind (JNumber _) = ''number''"
| "jsonKind (JString _) = ''string''"
| "jsonKind (JArray _) = ''array''"
| "jsonKind (JObject _) = ''object''"

text \<open>
  The decoder and the encoder both coerce a string to valid UTF-8: each byte that does not
  start a well-formed UTF-8 sequence is replaced by the encoding of U+FFFD. \<open>runeLen\<close> is
  the length of the well-formed sequence at the head of a string, or 0 when there is none,
  with the ranges of \<^verbatim>\<open>utf8.DecodeRune\<close>: the second byte of a sequence is restricted after
  the lead bytes E0, ED, F0 and F4, so that overlong forms, surrogates and code points
  above U+10FFFF are not well formed.
\<close>

definition byteIn :: "nat \<Rightarrow> nat \<Rightarrow> nat \<Rightarrow> string \<Rightarrow> bool" where
  "byteIn lo hi i cs =
     (i < length cs \<and> lo \<le> (of_char (cs ! i) :: nat) \<and> (of_char (cs ! i) :: nat) \<le> hi)"

definition secondLo :: "nat \<Rightarrow> nat" where
  "secondLo b = (if b = 0xE0 then 0xA0 else if b = 0xF0 then 0x90 else 0x80)"

definition secondHi :: "nat \<Rightarrow> nat" where
  "secondHi b = (if b = 0xED then 0x9F else if b = 0xF4 then 0x8F else 0xBF)"

definition runeLen :: "string \<Rightarrow> nat" where
  "runeLen s =
     (case s of
        [] \<Rightarrow> 0
      | c # cs \<Rightarrow>
          (let b = (of_char c :: nat)
           in if b < 0x80 then 1
              else if 0xC2 \<le> b \<and> b \<le> 0xDF
                then (if byteIn 0x80 0xBF 0 cs then 2 else 0)
              else if 0xE0 \<le> b \<and> b \<le> 0xEF
                then (if byteIn (secondLo b) (secondHi b) 0 cs \<and> byteIn 0x80 0xBF 1 cs
                      then 3 else 0)
              else if 0xF0 \<le> b \<and> b \<le> 0xF4
                then (if byteIn (secondLo b) (secondHi b) 0 cs \<and> byteIn 0x80 0xBF 1 cs \<and>
                         byteIn 0x80 0xBF 2 cs
                      then 4 else 0)
              else 0))"

definition runeError :: string where
  "runeError = [CHR 0xEF, CHR 0xBF, CHR 0xBD]"

function toValidUTF8 :: "string \<Rightarrow> string" where
  "toValidUTF8 s =
     (if s = [] then []
      else if runeLen s = 0 then runeError @ toValidUTF8 (tl s)
      else take (runeLen s) s @ toValidUTF8 (drop (runeLen s) s))"
  by pat_completeness auto
termination
  by (relation "measure length") auto

text \<open>
  Storing a JSON value in a struct field of a string type (\<^verbatim>\<open>Key\<close> or \<^verbatim>\<open>Value\<close>):
  a JSON string is stored, coerced to valid UTF-8; \<^verbatim>\<open>null\<close> leaves the field as it is;
  anything else is a type error and leaves the field as it is.
\<close>

definition storeString ::
  "string \<Rightarrow> string \<Rightarrow> string \<Rightarrow> json \<Rightarrow> string \<Rightarrow> decode_error option \<times> string" where
  "storeString ty struct field v cur =
     (case v of
        JString s \<Rightarrow> (None, toValidUTF8 s)
      | JNull \<Rightarrow> (None, cur)
      | _ \<Rightarrow> (Some (UnmarshalTypeError (jsonKind v) ty struct field), cur))"

text \<open>The decoder reports the first error it saved, after it has gone through the whole value.\<close>

definition saveError :: "decode_error option \<Rightarrow> decode_error option \<Rightarrow> decode_error option" where
  "saveError saved new = (case saved of None \<Rightarrow> new | Some e \<Rightarrow> Some e)"

text \<open>
  A member name, coerced to valid UTF-8 like every string the decoder reads, selects the
  struct field whose \<^verbatim>\<open>json\<close> tag equals it, and otherwise the field whose tag equals it
  up to case folding. Folding maps the ASCII letters to upper
  case, and the two non-ASCII runes that fold to an ASCII letter (U+212A, the Kelvin sign,
  UTF-8 \<^verbatim>\<open>E2 84 AA\<close>, and U+017F, the long s, UTF-8 \<^verbatim>\<open>C5 BF\<close>) to that letter. Names are
  only ever compared with the ASCII tags \<^verbatim>\<open>key\<close> and \<^verbatim>\<open>value\<close>, so the folding of
  the other non-ASCII runes does not matter and they are left as they are.
\<close>

definition upperASCII :: "char \<Rightarrow> char" where
  "upperASCII c =
     (let n = (of_char c :: nat)
      in if 97 \<le> n \<and> n \<le> 122 then char_of (n - 32) else c)"

fun foldName :: "string \<Rightarrow> string" where
  "foldName [] = []"
| "foldName (c # cs) =
     (if c = CHR 0xE2 \<and> take 2 cs = [CHR 0x84, CHR 0xAA] then CHR ''K'' # foldName (drop 2 cs)
      else if c = CHR 0xC5 \<and> take 1 cs = [CHR 0xBF] then CHR ''S'' # foldName (drop 1 cs)
      else upperASCII c # foldName cs)"

datatype field = FieldKey | FieldValue

definition lookupField :: "(string \<times> field) list \<Rightarrow> string \<Rightarrow> field option" where
  "lookupField flds name =
     (case map_of flds name of
        Some f \<Rightarrow> Some f
      | None \<Rightarrow> map_of (map (\<lambda>(tag, f). (foldName tag, f)) flds) (foldName name))"

definition memberField :: "(string \<times> field) list \<Rightarrow> string \<Rightarrow> field option" where
  "memberField flds name = lookupField flds (toValidUTF8 name)"

definition setRequestFields :: "(string \<times> field) list" where
  "setRequestFields = [(''key'', FieldKey), (''value'', FieldValue)]"

definition getRequestFields :: "(string \<times> field) list" where
  "getRequestFields = [(''key'', FieldKey)]"

fun objectSetRequest ::
  "(string \<times> json) list \<Rightarrow> decode_error option \<times> SetRequest \<Rightarrow> decode_error option \<times> SetRequest"
where
  "objectSetRequest [] st = st"
| "objectSetRequest ((name, v) # ms) (saved, p) =
     (case memberField setRequestFields name of
        None \<Rightarrow> objectSetRequest ms (saved, p)
      | Some FieldKey \<Rightarrow>
          (let (e, k) = storeString ''main.Key'' ''SetRequest'' ''key'' v (setKey p)
           in objectSetRequest ms (saveError saved e, p\<lparr>setKey := k\<rparr>))
      | Some FieldValue \<Rightarrow>
          (let (e, x) = storeString ''main.Value'' ''SetRequest'' ''value'' v (setValue p)
           in objectSetRequest ms (saveError saved e, p\<lparr>setValue := x\<rparr>)))"

fun objectGetRequest ::
  "(string \<times> json) list \<Rightarrow> decode_error option \<times> GetRequest \<Rightarrow> decode_error option \<times> GetRequest"
where
  "objectGetRequest [] st = st"
| "objectGetRequest ((name, v) # ms) (saved, p) =
     (case memberField getRequestFields name of
        Some FieldKey \<Rightarrow>
          (let (e, k) = storeString ''main.Key'' ''GetRequest'' ''key'' v (getKey p)
           in objectGetRequest ms (saveError saved e, p\<lparr>getKey := k\<rparr>))
      | _ \<Rightarrow> objectGetRequest ms (saved, p))"

text \<open>
  \<^verbatim>\<open>json.NewDecoder(r.Body).Decode(&payload)\<close> with \<^verbatim>\<open>var payload SetRequest\<close>
  (lines 174 and 175): the payload starts as the zero value, both strings empty. A JSON
  object fills the fields its members name, \<^verbatim>\<open>null\<close> leaves the payload as it is, and
  any other JSON value is a type error.
\<close>

definition decodeSetRequest :: "body \<Rightarrow> decode_error + SetRequest" where
  "decodeSetRequest b =
     (case b of
        Malformed msg \<Rightarrow> Inl (SyntaxError msg)
      | Document JNull \<Rightarrow> Inr \<lparr> setKey = [], setValue = [] \<rparr>
      | Document (JObject ms) \<Rightarrow>
          (case objectSetRequest ms (None, \<lparr> setKey = [], setValue = [] \<rparr>) of
             (None, p) \<Rightarrow> Inr p
           | (Some e, _) \<Rightarrow> Inl e)
      | Document v \<Rightarrow> Inl (UnmarshalTypeError (jsonKind v) ''main.SetRequest'' [] []))"

text \<open>The same with \<^verbatim>\<open>var payload GetRequest\<close> (lines 193 and 194).\<close>

definition decodeGetRequest :: "body \<Rightarrow> decode_error + GetRequest" where
  "decodeGetRequest b =
     (case b of
        Malformed msg \<Rightarrow> Inl (SyntaxError msg)
      | Document JNull \<Rightarrow> Inr \<lparr> getKey = [] \<rparr>
      | Document (JObject ms) \<Rightarrow>
          (case objectGetRequest ms (None, \<lparr> getKey = [] \<rparr>) of
             (None, p) \<Rightarrow> Inr p
           | (Some e, _) \<Rightarrow> Inl e)
      | Document v \<Rightarrow> Inl (UnmarshalTypeError (jsonKind v) ''main.GetRequest'' [] []))"

text \<open>
  \<^verbatim>\<open>json.NewEncoder(w).Encode(response)\<close> writes the JSON encoding of the response,
  an object with the one member \<^verbatim>\<open>value\<close>, followed by a newline. The written text is
  kept as the document it encodes: the encoder writes the value coerced to valid UTF-8.
\<close>

definition encodeGetResponse :: "GetResponse \<Rightarrow> json" where
  "encodeGetResponse resp = JObject [(''value'', JString (toValidUTF8 (respValue resp)))]"

section \<open>The store, the response writer and the effects of a handler\<close>

text \<open>
  \<^verbatim>\<open>KeyValueStore\<close> embeds a \<^verbatim>\<open>sync.Mutex\<close> and holds the map. The mutex is its state:
  held or free.
\<close>

record KeyValueStore =
  Mutex :: bool
  kvMap :: "Key \<rightharpoonup> Value"

text \<open>
  What a handler writes to the response body: text, or the encoding of a JSON document
  with its final newline.
\<close>

datatype chunk = Text string | Json json

text \<open>
  The response writer, as \<^verbatim>\<open>httptest.ResponseRecorder\<close> records it: the headers, the
  status code (200 until \<^verbatim>\<open>WriteHeader\<close> sets it), whether the header has been written,
  and the body written so far.
\<close>

record ResponseWriter =
  Header :: "string \<rightharpoonup> string"
  Code :: nat
  wroteHeader :: bool
  Body :: "chunk list"

record Request =
  Method :: string
  Path :: string
  RemoteAddr :: string
  ReqHeader :: "(string \<times> string list) list"
  ReqBody :: body

text \<open>
  The request headers are the list of names with their values in the order in which the
  \<^verbatim>\<open>range\<close> over the header map visits them in this run.
\<close>

definition StatusOK :: nat where "StatusOK = 200"
definition StatusAccepted :: nat where "StatusAccepted = 202"
definition StatusBadRequest :: nat where "StatusBadRequest = 400"
definition StatusNotFound :: nat where "StatusNotFound = 404"

text \<open>
  The effects of a handler in the order in which they happen: a line given to the logger,
  the read of the request body, the acquisition and the release of the store's mutex, the
  two map accesses, and the two kinds of write to the response.
\<close>

datatype event =
    EvLog string
  | EvReadBody
  | EvLock
  | EvUnlock
  | EvMapAssign Key Value
  | EvMapLookup Key
  | EvWriteHeader nat
  | EvWrite chunk

record world =
  store :: KeyValueStore
  writer :: ResponseWriter

text \<open>
  A step of a handler takes the store and the response writer and returns the events it
  caused with the new store and writer. It returns \<open>None\<close> when the handler does not
  return from it: \<^verbatim>\<open>Lock\<close> on a held mutex waits, and \<^verbatim>\<open>Unlock\<close> of a free mutex is a
  fatal runtime error.
\<close>

type_synonym step = "world \<Rightarrow> (event list \<times> world) option"

type_synonym HandlerFunc = "Request \<Rightarrow> step"

definition andThen :: "step \<Rightarrow> step \<Rightarrow> step" where
  "andThen f g s =
     (case f s of
        None \<Rightarrow> None
      | Some (es, s') \<Rightarrow>
          (case g s' of
             None \<Rightarrow> None
           | Some (es', s'') \<Rightarrow> Some (es @ es', s'')))"

definition headerSet :: "string \<Rightarrow> string \<Rightarrow> step" where
  "headerSet name v s =
     Some ([], s\<lparr>writer := (writer s)\<lparr>Header := (Header (writer s))(name \<mapsto> v)\<rparr>\<rparr>)"

definition setCode :: "nat \<Rightarrow> ResponseWriter \<Rightarrow> ResponseWriter" where
  "setCode code w = (if wroteHeader w then w else w\<lparr>Code := code, wroteHeader := True\<rparr>)"

definition WriteHeader :: "nat \<Rightarrow> step" where
  "WriteHeader code s = Some ([EvWriteHeader code], s\<lparr>writer := setCode code (writer s)\<rparr>)"

text \<open>A write before any \<^verbatim>\<open>WriteHeader\<close> writes the header with status 200 first.\<close>

definition Write :: "chunk \<Rightarrow> step" where
  "Write c s =
     (let w = setCode StatusOK (writer s)
      in Some ([EvWrite c], s\<lparr>writer := w\<lparr>Body := Body w @ [c]\<rparr>\<rparr>))"

definition newline :: string where
  "newline = [CHR 0x0A]"

definition Fprintln :: "string \<Rightarrow> step" where
  "Fprintln text = Write (Text (text @ newline))"

text \<open>The decimal text of an integer, as \<^verbatim>\<open>fmt\<close> prints a status code.\<close>

function itoa :: "nat \<Rightarrow> string" where
  "itoa n = (if n < 10 then [char_of (48 + n)] else itoa (n div 10) @ [char_of (48 + n mod 10)])"
  by pat_completeness auto
termination
  by (relation "measure id") auto

text \<open>
  \<^verbatim>\<open>http.Error\<close>: the two headers, the status, and the message with a newline.
\<close>

definition Error :: "string \<Rightarrow> nat \<Rightarrow> step" where
  "Error msg code =
     andThen (headerSet ''Content-Type'' ''text/plain; charset=utf-8'')
    (andThen (headerSet ''X-Content-Type-Options'' ''nosniff'')
    (andThen (WriteHeader code)
             (Fprintln msg)))"

definition Lock :: step where
  "Lock s =
     (if Mutex (store s) then None
      else Some ([EvLock], s\<lparr>store := (store s)\<lparr>Mutex := True\<rparr>\<rparr>))"

definition Unlock :: step where
  "Unlock s =
     (if Mutex (store s) then Some ([EvUnlock], s\<lparr>store := (store s)\<lparr>Mutex := False\<rparr>\<rparr>)
      else None)"

definition mapAssign :: "Key \<Rightarrow> Value \<Rightarrow> step" where
  "mapAssign k v s =
     Some ([EvMapAssign k v], s\<lparr>store := (store s)\<lparr>kvMap := (kvMap (store s))(k \<mapsto> v)\<rparr>\<rparr>)"

text \<open>The comma-ok lookup \<^verbatim>\<open>value, ok := kv.kvMap[k]\<close>, passed on to the rest of the body.\<close>

definition mapLookup :: "Key \<Rightarrow> (Value option \<Rightarrow> step) \<Rightarrow> step" where
  "mapLookup k rest s =
     (case rest (kvMap (store s) k) s of
        None \<Rightarrow> None
      | Some (es, s') \<Rightarrow> Some (EvMapLookup k # es, s'))"

text \<open>Reading and decoding the request body, passed on to the rest of the body.\<close>

definition Decode :: "(body \<Rightarrow> decode_error + 'a) \<Rightarrow> Request \<Rightarrow> (decode_error + 'a \<Rightarrow> step) \<Rightarrow> step"
where
  "Decode dec r rest s =
     (case rest (dec (ReqBody r)) s of
        None \<Rightarrow> None
      | Some (es, s') \<Rightarrow> Some (EvReadBody # es, s'))"

definition logLine :: "string \<Rightarrow> step" where
  "logLine l s = Some ([EvLog l], s)"

section \<open>The handlers\<close>

text \<open>
  \<^verbatim>\<open>SetHandler\<close>, lines 171 to 187. The deferred \<^verbatim>\<open>Unlock\<close> runs when the function
  returns, that is after the write of the acknowledgement.
\<close>

definition SetHandler :: HandlerFunc where
  "SetHandler r =
     andThen (headerSet ''Content-Type'' ''text/plain'')
    (Decode decodeSetRequest r (\<lambda>res.
       case res of
         Inl err \<Rightarrow> Error (errorText err) StatusBadRequest
       | Inr payload \<Rightarrow>
           andThen Lock
          (andThen (mapAssign (setKey payload) (setValue payload))
          (andThen (Fprintln (itoa StatusAccepted))
                   Unlock))))"

text \<open>
  \<^verbatim>\<open>GetHandler\<close>, lines 190 to 211. The deferred \<^verbatim>\<open>Unlock\<close> runs on both returns that
  follow the \<^verbatim>\<open>Lock\<close>.
\<close>

definition GetHandler :: HandlerFunc where
  "GetHandler r =
     andThen (headerSet ''Content-Type'' ''application/json'')
    (Decode decodeGetRequest r (\<lambda>res.
       case res of
         Inl err \<Rightarrow> Error (errorText err) StatusBadRequest
       | Inr payload \<Rightarrow>
           andThen Lock
          (mapLookup (getKey payload) (\<lambda>found.
             case found of
               None \<Rightarrow> andThen (Error ''Key not found'' StatusNotFound) Unlock
             | Some v \<Rightarrow>
                 andThen (Write (Json (encodeGetResponse \<lparr> respValue = v \<rparr>))) Unlock))))"

text \<open>The two probes, lines 157 to 168: one log line and the status.\<close>

definition LivenessProbeHandler :: HandlerFunc where
  "LivenessProbeHandler r =
     andThen (logLine (''Liveness probe called '' @ Path r)) (WriteHeader StatusOK)"

definition ReadinessProbeHandler :: HandlerFunc where
  "ReadinessProbeHandler r =
     andThen (logLine (''Readiness probe called '' @ Path r)) (WriteHeader StatusOK)"

text \<open>
  \<^verbatim>\<open>MiddlewareLogRequest\<close>, lines 214 to 229: the request line, one line for each value
  of each header, then the wrapped handler.
\<close>

definition headerLines :: "(string \<times> string list) list \<Rightarrow> string list" where
  "headerLines hs =
     concat (map (\<lambda>(name, vals). map (\<lambda>v. ''Header: '' @ name @ ''='' @ v) vals) hs)"

definition requestLines :: "Request \<Rightarrow> string list" where
  "requestLines r =
     (''Request: '' @ Method r @ '' '' @ Path r @ '' '' @ RemoteAddr r) # headerLines (ReqHeader r)"

fun logLines :: "string list \<Rightarrow> step" where
  "logLines [] = (\<lambda>s. Some ([], s))"
| "logLines (l # ls) = andThen (logLine l) (logLines ls)"

definition MiddlewareLogRequest :: "HandlerFunc \<Rightarrow> HandlerFunc" where
  "MiddlewareLogRequest next r = andThen (logLines (requestLines r)) (next r)"

section \<open>Serving requests\<close>

text \<open>
  The store that \<^verbatim>\<open>server\<close> creates (lines 99 to 101), the route table (lines 103 to
  108) and the wrapper that applies the middleware when the configuration enables it
  (lines 110 to 115).
\<close>

definition newStore :: KeyValueStore where
  "newStore = \<lparr> Mutex = False, kvMap = Map.empty \<rparr>"

definition NewRecorder :: ResponseWriter where
  "NewRecorder = \<lparr> Header = Map.empty, Code = 200, wroteHeader = False, Body = [] \<rparr>"

datatype endpoint = EpHealthz | EpReadyz | EpGet | EpSet

fun endpoints :: "endpoint \<Rightarrow> HandlerFunc" where
  "endpoints EpHealthz = LivenessProbeHandler"
| "endpoints EpReadyz = ReadinessProbeHandler"
| "endpoints EpGet = GetHandler"
| "endpoints EpSet = SetHandler"

definition handler :: "ServerConfig \<Rightarrow> HandlerFunc \<Rightarrow> HandlerFunc" where
  "handler env h = (if EnableLoggingMiddleware env then MiddlewareLogRequest h else h)"

text \<open>
  One request served on the store: the handler runs with a fresh response writer; the
  result is the trace of its effects, the response and the store it leaves.
\<close>

record served =
  events :: "event list"
  response :: ResponseWriter
  storeAfter :: KeyValueStore

definition serveOne :: "HandlerFunc \<Rightarrow> Request \<Rightarrow> KeyValueStore \<Rightarrow> served option" where
  "serveOne h r kv =
     (case h r \<lparr> store = kv, writer = NewRecorder \<rparr> of
        None \<Rightarrow> None
      | Some (es, s) \<Rightarrow> Some \<lparr> events = es, response = writer s, storeAfter = store s \<rparr>)"

text \<open>Requests served one after the other; the responses are returned in order.\<close>

fun serveAll ::
  "ServerConfig \<Rightarrow> (endpoint \<times> Request) list \<Rightarrow> KeyValueStore
     \<Rightarrow> (ResponseWriter list \<times> KeyValueStore) option"
where
  "serveAll env [] kv = Some ([], kv)"
| "serveAll env ((ep, r) # rest) kv =
     (case serveOne (handler env (endpoints ep)) r kv of
        None \<Rightarrow> None
      | Some x \<Rightarrow>
          (case serveAll env rest (storeAfter x) of
             None \<Rightarrow> None
           | Some (ws, kv') \<Rightarrow> Some (response x # ws, kv')))"

text \<open>
  A served request writes the key \<open>k\<close> when it is a \<^verbatim>\<open>/set\<close> request whose body decodes
  to a payload with that key.
\<close>

definition writesKey :: "Key \<Rightarrow> endpoint \<times> Request \<Rightarrow> bool" where
  "writesKey k x =
     (case x of (ep, r) \<Rightarrow>
        ep = EpSet \<and>
        (case decodeSetRequest (ReqBody r) of Inl _ \<Rightarrow> False | Inr p \<Rightarrow> setKey p = k))"

text \<open>
  The requests of the repository's tests of \<^verbatim>\<open>SetHandler\<close>: the body
  \<^verbatim>\<open>{"key":"test", "value":"value"}\<close>, and the body \<^verbatim>\<open>"value":"value"}\<close>, whose first
  JSON value is the string \<^verbatim>\<open>"value"\<close>. A \<^verbatim>\<open>/get\<close> request for a key has the body
  \<^verbatim>\<open>{"key": k}\<close>, a \<^verbatim>\<open>/set\<close> request for a key and a value the body
  \<^verbatim>\<open>{"key": k, "value": v}\<close>.
\<close>

definition postRequest :: "string \<Rightarrow> body \<Rightarrow> Request" where
  "postRequest path b =
     \<lparr> Method = ''POST'', Path = path, RemoteAddr = ''192.0.2.1:1234'', ReqHeader = [],
       ReqBody = b \<rparr>"

definition setRequestOf :: "Key \<Rightarrow> Value \<Rightarrow> Request" where
  "setRequestOf k v =
     postRequest ''/set'' (Document (JObject [(''key'', JString k), (''value'', JString v)]))"

definition getRequestOf :: "Key \<Rightarrow> Request" where
  "getRequestOf k = postRequest ''/get'' (Document (JObject [(''key'', JString k)]))"

definition validSetRequest :: Request where
  "validSetRequest = setRequestOf ''test'' ''value''"

definition invalidSetRequest :: Request where
  "invalidSetRequest = postRequest ''/set'' (Document (JString ''value''))"

definition emptyObjectSetRequest :: Request where
  "emptyObjectSetRequest = postRequest ''/set'' (Document (JObject []))"









section \<open>The mutex along a trace\<close>

text \<open>
  A trace is read from left to right with the state of the mutex, free at the start.
  \<open>accessUnderLock\<close>: every map access happens while the mutex is held.
  \<open>ioOutsideLock\<close>: no read of the request body and no write to the response happens
  while the mutex is held.
\<close>

fun isAccess :: "event \<Rightarrow> bool" where
  "isAccess (EvMapAssign _ _) = True"
| "isAccess (EvMapLookup _) = True"
| "isAccess _ = False"

fun isIO :: "event \<Rightarrow> bool" where
  "isIO EvReadBody = True"
| "isIO (EvWriteHeader _) = True"
| "isIO (EvWrite _) = True"
| "isIO _ = False"

fun accessUnderLock :: "bool \<Rightarrow> event list \<Rightarrow> bool" where
  "accessUnderLock held [] = True"
| "accessUnderLock held (EvLock # es) = accessUnderLock True es"
| "accessUnderLock held (EvUnlock # es) = accessUnderLock False es"
| "accessUnderLock held (e # es) = ((isAccess e \<longrightarrow> held) \<and> accessUnderLock held es)"

fun ioOutsideLock :: "bool \<Rightarrow> event list \<Rightarrow> bool" where
  "ioOutsideLock held [] = True"
| "ioOutsideLock held (EvLock # es) = ioOutsideLock True es"
| "ioOutsideLock held (EvUnlock # es) = ioOutsideLock False es"
| "ioOutsideLock held (e # es) = ((isIO e \<longrightarrow> \<not> held) \<and> ioOutsideLock held es)"

text \<open>\<open>readOutsideLock\<close>: the request body is not read while the mutex is held.\<close>

fun readOutsideLock :: "bool \<Rightarrow> event list \<Rightarrow> bool" where
  "readOutsideLock held [] = True"
| "readOutsideLock held (EvLock # es) = readOutsideLock True es"
| "readOutsideLock held (EvUnlock # es) = readOutsideLock False es"
| "readOutsideLock held (e # es) = ((e = EvReadBody \<longrightarrow> \<not> held) \<and> readOutsideLock held es)"

text \<open>
  A key is never written by a history of served requests when no request of the history
  writes it.
\<close>

definition neverWritten :: "Key \<Rightarrow> (endpoint \<times> Request) list \<Rightarrow> bool" where
  "neverWritten k history = list_all (\<lambda>x. \<not> writesKey k x) history"

text \<open>
  \<open>writesUnderLock\<close>: every write to the response happens while the mutex is held.
  \<open>heldUntilReturn\<close>: once the mutex is taken, it is not taken again and is released
  once, by the last event of the trace.
\<close>

fun isWrite :: "event \<Rightarrow> bool" where
  "isWrite (EvWriteHeader _) = True"
| "isWrite (EvWrite _) = True"
| "isWrite _ = False"

fun writesUnderLock :: "bool \<Rightarrow> event list \<Rightarrow> bool" where
  "writesUnderLock held [] = True"
| "writesUnderLock held (EvLock # es) = writesUnderLock True es"
| "writesUnderLock held (EvUnlock # es) = writesUnderLock False es"
| "writesUnderLock held (e # es) = ((isWrite e \<longrightarrow> held) \<and> writesUnderLock held es)"

definition heldUntilReturn :: "event list \<Rightarrow> bool" where
  "heldUntilReturn es =
     (case dropWhile (\<lambda>e. e \<noteq> EvLock) es of
        [] \<Rightarrow> True
      | l # rest \<Rightarrow>
          rest \<noteq> [] \<and> last rest = EvUnlock \<and> EvUnlock \<notin> set (butlast rest) \<and>
          EvLock \<notin> set rest)"

text \<open>
  The lock discipline of one served request: the map is only accessed while the mutex is
  held; the request body is read while it is free; once taken, the mutex is held until the
  handler returns, and is free when it has returned; when the mutex is taken, the response
  is written, and every write to it happens while the mutex is held; when the mutex is
  never taken, all reads and writes happen outside the critical section.
\<close>

definition lockDiscipline :: "served \<Rightarrow> bool" where
  "lockDiscipline x =
     (accessUnderLock False (events x) \<and> readOutsideLock False (events x) \<and>
      heldUntilReturn (events x) \<and> \<not> Mutex (storeAfter x) \<and>
      (if EvLock \<in> set (events x)
       then list_ex isWrite (events x) \<and> writesUnderLock False (events x) \<and>
            \<not> ioOutsideLock False (events x)
       else ioOutsideLock False (events x)))"

text \<open>The command line \<^verbatim>\<open>-shutdown-timeout=0\<close>.\<close>

definition zeroTimeoutFlags :: Flags where
  "zeroTimeoutFlags =
     \<lparr> address = None, shutdown_timeout = Some 0, enable_logging_middleware = None \<rparr>"

text \<open>A configuration with the logging middleware enabled.\<close>

definition loggingConfig :: ServerConfig where
  "loggingConfig =
     \<lparr> ServiceName = ''key-value-service-v1'', ServerAddress = ''localhost:8080'',
       ShutdownTimeout = Second * 10, EnableLoggingMiddleware = True, ServiceVersion = [] \<rparr>"

text \<open>
  A history of four served requests, none of which writes the key \<^verbatim>\<open>missing\<close>, and a
  store that holds that key.
\<close>

definition sampleHistory :: "(endpoint \<times> Request) list" where
  "sampleHistory =
     [(EpSet, setRequestOf ''a'' ''1''), (EpGet, getRequestOf ''a''), (EpSet, invalidSetRequest),
      (EpHealthz, postRequest ''/healthz'' (Malformed ''EOF''))]"

definition sampleStore :: KeyValueStore where
  "sampleStore = \<lparr> Mutex = False, kvMap = [''missing'' \<mapsto> ''x''] \<rparr>"

declare itoa.simps [simp del]

declare toValidUTF8.simps [simp del]

section \<open>Evaluation lemmas\<close>

lemmas step_defs = andThen_def headerSet_def WriteHeader_def Write_def Fprintln_def Error_def
  Lock_def Unlock_def mapAssign_def mapLookup_def Decode_def logLine_def setCode_def

lemma itoa_StatusAccepted: "itoa StatusAccepted = ''202''"
  by code_simp

lemma newStore_free: "\<not> Mutex newStore"
  by (simp add: newStore_def)

subsection \<open>Coercion to valid UTF-8\<close>

lemma toValidUTF8_Nil [simp]: "toValidUTF8 [] = []"
  by (simp add: toValidUTF8.simps)

lemma byteIn_length: "byteIn lo hi i cs \<Longrightarrow> i < length cs"
  by (simp add: byteIn_def)

lemma runeLen_le: "runeLen s \<le> length s"
proof (cases s)
  case Nil
  then show ?thesis by (simp add: runeLen_def)
next
  case (Cons c cs)
  have "byteIn lo hi 0 cs \<Longrightarrow> 1 \<le> length cs" for lo hi
    using byteIn_length [of lo hi 0 cs] by (cases cs) simp_all
  moreover have "byteIn lo hi 1 cs \<Longrightarrow> 2 \<le> length cs" for lo hi
    using byteIn_length [of lo hi 1 cs] by arith
  moreover have "byteIn lo hi 2 cs \<Longrightarrow> 3 \<le> length cs" for lo hi
    using byteIn_length [of lo hi 2 cs] by arith
  ultimately show ?thesis
    using Cons by (auto simp add: runeLen_def Let_def)
qed

lemma byteIn_take:
  "byteIn lo hi i cs \<Longrightarrow> i < n \<Longrightarrow> byteIn lo hi i (take n cs @ t)"
  by (auto simp add: byteIn_def nth_append)

lemma runeLen_prefix:
  assumes "runeLen s = n" and "0 < n"
  shows "runeLen (take n s @ t) = n"
proof (cases s)
  case Nil
  with assms show ?thesis by (simp add: runeLen_def)
next
  case (Cons c cs)
  with assms show ?thesis
    by (auto simp add: runeLen_def Let_def byteIn_take split: if_splits)
qed

lemma runeLen_runeError: "runeLen (runeError @ t) = 3"
  by (simp add: runeLen_def runeError_def byteIn_def secondLo_def secondHi_def)

lemma toValidUTF8_runeError: "toValidUTF8 (runeError @ t) = runeError @ toValidUTF8 t"
proof -
  have "runeError @ t \<noteq> []" by (simp add: runeError_def)
  then show ?thesis
    by (subst toValidUTF8.simps) (simp add: runeLen_runeError, simp add: runeError_def)
qed

lemma toValidUTF8_prefix:
  assumes "runeLen s = n" and "0 < n"
  shows "toValidUTF8 (take n s @ t) = take n s @ toValidUTF8 t"
proof -
  have len: "n \<le> length s" using assms(1) runeLen_le [of s] by simp
  have ne: "take n s @ t \<noteq> []" using assms(2) len by (cases s) auto
  have rl: "runeLen (take n s @ t) = n" by (rule runeLen_prefix [OF assms])
  show ?thesis
    using ne rl assms(2) len by (subst toValidUTF8.simps) (simp add: min_def)
qed

lemma toValidUTF8_idem: "toValidUTF8 (toValidUTF8 s) = toValidUTF8 s"
proof (induction s rule: toValidUTF8.induct)
  case (1 s)
  show ?case
  proof (cases "s = []")
    case True
    then show ?thesis by simp
  next
    case False
    show ?thesis
    proof (cases "runeLen s = 0")
      case True
      with False have eq: "toValidUTF8 s = runeError @ toValidUTF8 (tl s)"
        by (subst toValidUTF8.simps) simp
      from "1.IH"(1) [OF False True] show ?thesis
        by (simp add: eq toValidUTF8_runeError)
    next
      case nz: False
      with False have eq: "toValidUTF8 s = take (runeLen s) s @ toValidUTF8 (drop (runeLen s) s)"
        by (subst toValidUTF8.simps) simp
      from nz have pos: "0 < runeLen s" by simp
      from "1.IH"(2) [OF False nz] show ?thesis
        by (simp add: eq toValidUTF8_prefix [OF refl pos])
    qed
  qed
qed

lemma toValidUTF8_ascii:
  "list_all (\<lambda>c. (of_char c :: nat) < 128) s \<Longrightarrow> toValidUTF8 s = s"
proof (induction s)
  case Nil
  then show ?case by simp
next
  case (Cons c cs)
  then have "runeLen (c # cs) = 1" by (simp add: runeLen_def)
  with Cons show ?case by (subst toValidUTF8.simps) simp
qed

text \<open>Every string that the decoder stores is valid UTF-8: coercing it again changes nothing.\<close>

lemma storeString_valid:
  assumes "storeString ty st f v cur = (e, s)" and "toValidUTF8 cur = cur"
  shows "toValidUTF8 s = s"
  using assms by (cases v) (auto simp add: storeString_def toValidUTF8_idem)

lemma objectSetRequest_valid:
  assumes "objectSetRequest ms (saved, p) = (saved', p')"
    and "toValidUTF8 (setKey p) = setKey p" and "toValidUTF8 (setValue p) = setValue p"
  shows "toValidUTF8 (setKey p') = setKey p' \<and> toValidUTF8 (setValue p') = setValue p'"
  using assms
proof (induction ms arbitrary: saved p)
  case Nil
  then show ?case by simp
next
  case (Cons m ms)
  obtain name v where m: "m = (name, v)" by (cases m)
  show ?case
  proof (cases "memberField setRequestFields name")
    case None
    with Cons.prems m have "objectSetRequest ms (saved, p) = (saved', p')" by simp
    from Cons.IH [OF this Cons.prems(2,3)] show ?thesis .
  next
    case (Some f)
    show ?thesis
    proof (cases f)
      case FieldKey
      obtain e k where st: "storeString ''main.Key'' ''SetRequest'' ''key'' v (setKey p) = (e, k)"
        by (cases "storeString ''main.Key'' ''SetRequest'' ''key'' v (setKey p)")
      from storeString_valid [OF st Cons.prems(2)] have k: "toValidUTF8 k = k" .
      from Cons.prems(1) m Some FieldKey st
      have "objectSetRequest ms (saveError saved e, p\<lparr>setKey := k\<rparr>) = (saved', p')" by simp
      from Cons.IH [OF this] k Cons.prems(3) show ?thesis by simp
    next
      case FieldValue
      obtain e x where
        st: "storeString ''main.Value'' ''SetRequest'' ''value'' v (setValue p) = (e, x)"
        by (cases "storeString ''main.Value'' ''SetRequest'' ''value'' v (setValue p)")
      from storeString_valid [OF st Cons.prems(3)] have x: "toValidUTF8 x = x" .
      from Cons.prems(1) m Some FieldValue st
      have "objectSetRequest ms (saveError saved e, p\<lparr>setValue := x\<rparr>) = (saved', p')" by simp
      from Cons.IH [OF this] x Cons.prems(2) show ?thesis by simp
    qed
  qed
qed

lemma decodeSetRequest_valid:
  assumes "decodeSetRequest b = Inr p"
  shows "toValidUTF8 (setKey p) = setKey p \<and> toValidUTF8 (setValue p) = setValue p"
proof (cases b)
  case (Malformed msg)
  with assms show ?thesis by (simp add: decodeSetRequest_def)
next
  case (Document d)
  show ?thesis
  proof (cases d)
    case (JObject ms)
    obtain saved' p' where
      run: "objectSetRequest ms (None, \<lparr> setKey = [], setValue = [] \<rparr>) = (saved', p')"
      by (cases "objectSetRequest ms (None, \<lparr> setKey = [], setValue = [] \<rparr>)")
    from objectSetRequest_valid [OF run]
    have "toValidUTF8 (setKey p') = setKey p' \<and> toValidUTF8 (setValue p') = setValue p'"
      by simp
    moreover from assms Document JObject run have "p' = p"
      by (cases saved') (simp_all add: decodeSetRequest_def)
    ultimately show ?thesis by simp
  qed (use assms Document in \<open>auto simp add: decodeSetRequest_def\<close>)
qed

lemma memberField_tags:
  "memberField setRequestFields ''key'' = Some FieldKey"
  "memberField setRequestFields ''value'' = Some FieldValue"
  "memberField getRequestFields ''key'' = Some FieldKey"
  by (simp_all add: memberField_def lookupField_def setRequestFields_def getRequestFields_def
      toValidUTF8_ascii)

subsection \<open>Configuration\<close>

lemma useEnv_nonempty_string:
  "v \<noteq> [] \<Longrightarrow> useEnvOrDefaultIfNotSet (IString v) d = Inr (IString v)"
  by (simp add: useEnvOrDefaultIfNotSet_def)

lemma useEnv_empty_string: "useEnvOrDefaultIfNotSet (IString []) d = Inr d"
  by (simp add: useEnvOrDefaultIfNotSet_def)

lemma useEnv_zero_duration:
  "useEnvOrDefaultIfNotSet (IDuration 0) (IDuration d) = Inr (IDuration d)"
  by (simp add: useEnvOrDefaultIfNotSet_def assertDuration_def)

lemma shutdownTimeoutDefault_env:
  assumes "Getenv environ ''SHUTDOWN_TIMEOUT'' \<noteq> []"
  shows "shutdownTimeoutDefault environ = Inl (InterfaceConversion ''string'' ''time.Duration'')"
  using assms
  by (simp add: shutdownTimeoutDefault_def useEnv_nonempty_string assertDuration_def)

lemma shutdownTimeoutDefault_noenv:
  assumes "Getenv environ ''SHUTDOWN_TIMEOUT'' = []"
  shows "shutdownTimeoutDefault environ = Inr (Second * 10)"
  using assms
  by (simp add: shutdownTimeoutDefault_def useEnv_empty_string assertDuration_def)

lemma serverPortDefault_returns: "\<exists>a. serverPortDefault environ = Inr a"
  by (cases "Getenv environ ''SERVER_ADDRESS'' = []")
     (simp_all add: serverPortDefault_def useEnv_empty_string useEnv_nonempty_string
        assertString_def)

lemma enableLoggingMiddlewareDefault_unset:
  assumes "Getenv environ ''ENABLE_LOGGING_MIDDLEWARE'' = []"
  shows "enableLoggingMiddlewareDefault environ = Inr False"
  using assms
  by (simp add: enableLoggingMiddlewareDefault_def useEnv_empty_string assertBool_def)

text \<open>
  Whatever the flags are, a non-empty \<^verbatim>\<open>SHUTDOWN_TIMEOUT\<close> ends \<^verbatim>\<open>main\<close> in the
  panic of the type assertion: the value that comes back is the string, not a duration.
\<close>

lemma mainConfig_shutdown_env_set:
  assumes "Getenv environ ''SHUTDOWN_TIMEOUT'' \<noteq> []"
  shows "mainConfig environ flags version = Inl (InterfaceConversion ''string'' ''time.Duration'')"
proof -
  obtain a where "serverPortDefault environ = Inr a"
    using serverPortDefault_returns by blast
  then show ?thesis
    using shutdownTimeoutDefault_env [OF assms] by (simp add: mainConfig_def)
qed

lemma ten_seconds: "unat (Second * 10) = 10000000000"
  by (simp add: Second_def)

subsection \<open>Decoding the example requests\<close>

lemma decode_setRequestOf:
  "decodeSetRequest (ReqBody (setRequestOf k v)) =
     Inr \<lparr> setKey = toValidUTF8 k, setValue = toValidUTF8 v \<rparr>"
  by (simp add: setRequestOf_def postRequest_def decodeSetRequest_def memberField_tags
      storeString_def saveError_def)

lemma decode_getRequestOf:
  "decodeGetRequest (ReqBody (getRequestOf k)) = Inr \<lparr> getKey = toValidUTF8 k \<rparr>"
  by (simp add: getRequestOf_def postRequest_def decodeGetRequest_def memberField_tags
      storeString_def saveError_def)


lemma decode_set_a1:
  "decodeSetRequest (ReqBody (setRequestOf ''a'' ''1'')) = Inr \<lparr> setKey = ''a'', setValue = ''1'' \<rparr>"
  by (simp add: decode_setRequestOf toValidUTF8_ascii)

lemma decode_set_a2:
  "decodeSetRequest (ReqBody (setRequestOf ''a'' ''2'')) = Inr \<lparr> setKey = ''a'', setValue = ''2'' \<rparr>"
  by (simp add: decode_setRequestOf toValidUTF8_ascii)

lemma decode_get_a:
  "decodeGetRequest (ReqBody (getRequestOf ''a'')) = Inr \<lparr> getKey = ''a'' \<rparr>"
  by (simp add: decode_getRequestOf toValidUTF8_ascii)

lemma decode_get_missing:
  "decodeGetRequest (ReqBody (getRequestOf ''missing'')) = Inr \<lparr> getKey = ''missing'' \<rparr>"
  by (simp add: decode_getRequestOf toValidUTF8_ascii)

lemma decode_validSetRequest:
  "decodeSetRequest (ReqBody validSetRequest) = Inr \<lparr> setKey = ''test'', setValue = ''value'' \<rparr>"
  by (simp add: validSetRequest_def decode_setRequestOf toValidUTF8_ascii)


lemma decode_invalidSetRequest:
  "decodeSetRequest (ReqBody invalidSetRequest) =
     Inl (UnmarshalTypeError ''string'' ''main.SetRequest'' [] [])"
  by (simp add: invalidSetRequest_def postRequest_def decodeSetRequest_def)

subsection \<open>What each handler does on each of its paths\<close>

lemma SetHandler_decoded:
  assumes "decodeSetRequest (ReqBody r) = Inr p" and "\<not> Mutex kv"
  shows "serveOne SetHandler r kv =
           Some \<lparr> events = [EvReadBody, EvLock, EvMapAssign (setKey p) (setValue p),
                            EvWrite (Text (''202'' @ newline)), EvUnlock],
                  response = \<lparr> Header = [''Content-Type'' \<mapsto> ''text/plain''], Code = StatusOK,
                               wroteHeader = True, Body = [Text (''202'' @ newline)] \<rparr>,
                  storeAfter = kv\<lparr>kvMap := (kvMap kv)(setKey p \<mapsto> setValue p)\<rparr> \<rparr>"
  using assms
  by (simp add: serveOne_def SetHandler_def step_defs NewRecorder_def itoa_StatusAccepted
      StatusOK_def)

lemma SetHandler_failed:
  assumes "decodeSetRequest (ReqBody r) = Inl err"
  shows "serveOne SetHandler r kv =
           Some \<lparr> events = [EvReadBody, EvWriteHeader StatusBadRequest,
                            EvWrite (Text (errorText err @ newline))],
                  response = \<lparr> Header = [''Content-Type'' \<mapsto> ''text/plain; charset=utf-8'',
                                          ''X-Content-Type-Options'' \<mapsto> ''nosniff''],
                               Code = StatusBadRequest, wroteHeader = True,
                               Body = [Text (errorText err @ newline)] \<rparr>,
                  storeAfter = kv \<rparr>"
  using assms
  by (simp add: serveOne_def SetHandler_def step_defs NewRecorder_def)

lemma GetHandler_failed:
  assumes "decodeGetRequest (ReqBody r) = Inl err"
  shows "serveOne GetHandler r kv =
           Some \<lparr> events = [EvReadBody, EvWriteHeader StatusBadRequest,
                            EvWrite (Text (errorText err @ newline))],
                  response = \<lparr> Header = [''Content-Type'' \<mapsto> ''text/plain; charset=utf-8'',
                                          ''X-Content-Type-Options'' \<mapsto> ''nosniff''],
                               Code = StatusBadRequest, wroteHeader = True,
                               Body = [Text (errorText err @ newline)] \<rparr>,
                  storeAfter = kv \<rparr>"
  using assms
  by (simp add: serveOne_def GetHandler_def step_defs NewRecorder_def)

lemma GetHandler_absent:
  assumes "decodeGetRequest (ReqBody r) = Inr p" and "\<not> Mutex kv"
    and "kvMap kv (getKey p) = None"
  shows "serveOne GetHandler r kv =
           Some \<lparr> events = [EvReadBody, EvLock, EvMapLookup (getKey p),
                            EvWriteHeader StatusNotFound,
                            EvWrite (Text (''Key not found'' @ newline)), EvUnlock],
                  response = \<lparr> Header = [''Content-Type'' \<mapsto> ''text/plain; charset=utf-8'',
                                          ''X-Content-Type-Options'' \<mapsto> ''nosniff''],
                               Code = StatusNotFound, wroteHeader = True,
                               Body = [Text (''Key not found'' @ newline)] \<rparr>,
                  storeAfter = kv \<rparr>"
  using assms
  by (simp add: serveOne_def GetHandler_def step_defs NewRecorder_def)

lemma GetHandler_present:
  assumes "decodeGetRequest (ReqBody r) = Inr p" and "\<not> Mutex kv"
    and "kvMap kv (getKey p) = Some v"
  shows "serveOne GetHandler r kv =
           Some \<lparr> events = [EvReadBody, EvLock, EvMapLookup (getKey p),
                            EvWrite (Json (JObject [(''value'', JString (toValidUTF8 v))])),
                            EvUnlock],
                  response = \<lparr> Header = [''Content-Type'' \<mapsto> ''application/json''],
                               Code = StatusOK, wroteHeader = True,
                               Body = [Json (JObject [(''value'', JString (toValidUTF8 v))])] \<rparr>,
                  storeAfter = kv \<rparr>"
  using assms
  by (simp add: serveOne_def GetHandler_def step_defs NewRecorder_def encodeGetResponse_def
      StatusOK_def)

lemma serveOne_probes:
  "serveOne LivenessProbeHandler r kv =
     Some \<lparr> events = [EvLog (''Liveness probe called '' @ Path r), EvWriteHeader StatusOK],
            response = NewRecorder\<lparr>wroteHeader := True\<rparr>, storeAfter = kv \<rparr>"
  "serveOne ReadinessProbeHandler r kv =
     Some \<lparr> events = [EvLog (''Readiness probe called '' @ Path r), EvWriteHeader StatusOK],
            response = NewRecorder\<lparr>wroteHeader := True\<rparr>, storeAfter = kv \<rparr>"
  by (simp_all add: serveOne_def LivenessProbeHandler_def ReadinessProbeHandler_def step_defs
      NewRecorder_def StatusOK_def)

subsection \<open>The middleware\<close>

lemma logLines_run: "logLines ls s = Some (map EvLog ls, s)"
  by (induction ls) (simp_all add: andThen_def logLine_def)

lemma MiddlewareLogRequest_run:
  "MiddlewareLogRequest next r s =
     (case next r s of
        None \<Rightarrow> None
      | Some (es, s') \<Rightarrow> Some (map EvLog (requestLines r) @ es, s'))"
  by (simp add: MiddlewareLogRequest_def andThen_def logLines_run)

lemma serveOne_Middleware:
  "serveOne (MiddlewareLogRequest next) r kv =
     map_option (\<lambda>x. x\<lparr>events := map EvLog (requestLines r) @ events x\<rparr>) (serveOne next r kv)"
  by (simp add: serveOne_def MiddlewareLogRequest_run split: option.splits)

lemma serveOne_handler:
  "serveOne (handler env h) r kv =
     map_option
       (\<lambda>x. x\<lparr>events := (if EnableLoggingMiddleware env then map EvLog (requestLines r) else [])
                          @ events x\<rparr>)
       (serveOne h r kv)"
  by (cases "serveOne h r kv") (simp_all add: handler_def serveOne_Middleware)

subsection \<open>Every request returns, leaves the mutex free and stores valid UTF-8\<close>

lemma endpoint_step:
  assumes "\<not> Mutex kv"
  shows "\<exists>x. serveOne (endpoints ep) r kv = Some x \<and> \<not> Mutex (storeAfter x) \<and>
             (\<forall>k. \<not> writesKey k (ep, r) \<longrightarrow> kvMap (storeAfter x) k = kvMap kv k) \<and>
             ((\<forall>k v. kvMap kv k = Some v \<longrightarrow> toValidUTF8 v = v) \<longrightarrow>
              (\<forall>k v. kvMap (storeAfter x) k = Some v \<longrightarrow> toValidUTF8 v = v))"
proof (cases ep)
  case EpHealthz
  then show ?thesis using assms by (simp add: serveOne_probes)
next
  case EpReadyz
  then show ?thesis using assms by (simp add: serveOne_probes)
next
  case EpGet
  show ?thesis
  proof (cases "decodeGetRequest (ReqBody r)")
    case (Inl err)
    with EpGet assms show ?thesis by (simp add: GetHandler_failed)
  next
    case (Inr p)
    show ?thesis
    proof (cases "kvMap kv (getKey p)")
      case None
      with EpGet Inr assms show ?thesis by (simp add: GetHandler_absent)
    next
      case (Some v)
      with EpGet Inr assms show ?thesis by (simp add: GetHandler_present)
    qed
  qed
next
  case EpSet
  show ?thesis
  proof (cases "decodeSetRequest (ReqBody r)")
    case (Inl err)
    with EpSet assms show ?thesis by (simp add: SetHandler_failed)
  next
    case (Inr p)
    from decodeSetRequest_valid [OF Inr] have "toValidUTF8 (setValue p) = setValue p" by simp
    with Inr EpSet assms show ?thesis by (simp add: SetHandler_decoded writesKey_def)
  qed
qed

lemma handler_step:
  assumes "\<not> Mutex kv"
  shows "\<exists>x. serveOne (handler env (endpoints ep)) r kv = Some x \<and> \<not> Mutex (storeAfter x) \<and>
             (\<forall>k. \<not> writesKey k (ep, r) \<longrightarrow> kvMap (storeAfter x) k = kvMap kv k) \<and>
             ((\<forall>k v. kvMap kv k = Some v \<longrightarrow> toValidUTF8 v = v) \<longrightarrow>
              (\<forall>k v. kvMap (storeAfter x) k = Some v \<longrightarrow> toValidUTF8 v = v))"
proof -
  from endpoint_step [OF assms, of ep r] obtain x where
    x: "serveOne (endpoints ep) r kv = Some x" "\<not> Mutex (storeAfter x)"
       "\<forall>k. \<not> writesKey k (ep, r) \<longrightarrow> kvMap (storeAfter x) k = kvMap kv k"
       "(\<forall>k v. kvMap kv k = Some v \<longrightarrow> toValidUTF8 v = v) \<longrightarrow>
        (\<forall>k v. kvMap (storeAfter x) k = Some v \<longrightarrow> toValidUTF8 v = v)"
    by blast
  then show ?thesis by (simp add: serveOne_handler)
qed

lemma serveAll_returns:
  assumes "\<not> Mutex kv" and "\<forall>k v. kvMap kv k = Some v \<longrightarrow> toValidUTF8 v = v"
  shows "\<exists>ws kv'. serveAll env history kv = Some (ws, kv') \<and> \<not> Mutex kv' \<and>
           length ws = length history \<and>
           (\<forall>k. neverWritten k history \<longrightarrow> kvMap kv' k = kvMap kv k) \<and>
           (\<forall>k v. kvMap kv' k = Some v \<longrightarrow> toValidUTF8 v = v)"
  using assms
proof (induction history arbitrary: kv)
  case Nil
  then show ?case by (simp add: neverWritten_def)
next
  case (Cons a history)
  obtain ep r where a: "a = (ep, r)" by (cases a)
  from handler_step [OF Cons.prems(1), of env ep r] Cons.prems(2) obtain x where
    x: "serveOne (handler env (endpoints ep)) r kv = Some x" "\<not> Mutex (storeAfter x)"
       "\<forall>k. \<not> writesKey k (ep, r) \<longrightarrow> kvMap (storeAfter x) k = kvMap kv k"
       "\<forall>k v. kvMap (storeAfter x) k = Some v \<longrightarrow> toValidUTF8 v = v"
    by blast
  from Cons.IH [OF x(2) x(4)] obtain ws kv' where
    r: "serveAll env history (storeAfter x) = Some (ws, kv')" "\<not> Mutex kv'"
       "length ws = length history"
       "\<forall>k. neverWritten k history \<longrightarrow> kvMap kv' k = kvMap (storeAfter x) k"
       "\<forall>k v. kvMap kv' k = Some v \<longrightarrow> toValidUTF8 v = v"
    by blast
  show ?case using a x(1,2,3) r by (simp add: neverWritten_def)
qed

lemma serveAll_newStore:
  "\<exists>ws kv. serveAll env history newStore = Some (ws, kv) \<and> \<not> Mutex kv \<and>
     (neverWritten k history \<longrightarrow> kvMap kv k = None) \<and>
     (\<forall>v. kvMap kv k = Some v \<longrightarrow> toValidUTF8 v = v)"
proof -
  have "\<forall>k v. kvMap newStore k = Some v \<longrightarrow> toValidUTF8 v = v" by (simp add: newStore_def)
  from serveAll_returns [OF newStore_free this, of env history] obtain ws kv where
    "serveAll env history newStore = Some (ws, kv)" "\<not> Mutex kv"
    "\<forall>k. neverWritten k history \<longrightarrow> kvMap kv k = kvMap newStore k"
    "\<forall>k v. kvMap kv k = Some v \<longrightarrow> toValidUTF8 v = v"
    by blast
  then show ?thesis by (auto simp add: newStore_def)
qed

subsection \<open>Histories\<close>

lemma sampleHistory_never: "neverWritten ''missing'' sampleHistory"
  by (simp add: neverWritten_def sampleHistory_def writesKey_def decode_set_a1
      decode_invalidSetRequest)

lemma sampleHistory_run:
  "\<exists>ws. serveAll loggingConfig sampleHistory newStore =
          Some (ws, \<lparr> Mutex = False, kvMap = [''a'' \<mapsto> ''1''] \<rparr>)"
  by (simp add: sampleHistory_def serveOne_handler SetHandler_decoded [OF decode_set_a1]
      GetHandler_present [OF decode_get_a] SetHandler_failed [OF decode_invalidSetRequest]
      serveOne_probes newStore_def)

subsection \<open>The shapes of the traces\<close>

lemma lockDiscipline_cases:
  "lockDiscipline \<lparr> events = [EvReadBody, EvWriteHeader c, EvWrite t], response = w, storeAfter = kv \<rparr>
     = (\<not> Mutex kv)"
  "lockDiscipline \<lparr> events = [EvReadBody, EvLock, EvMapAssign k v, EvWrite t, EvUnlock],
       response = w, storeAfter = kv \<rparr> = (\<not> Mutex kv)"
  "lockDiscipline \<lparr> events = [EvReadBody, EvLock, EvMapLookup k, EvWriteHeader c, EvWrite t, EvUnlock],
       response = w, storeAfter = kv \<rparr> = (\<not> Mutex kv)"
  "lockDiscipline \<lparr> events = [EvReadBody, EvLock, EvMapLookup k, EvWrite t, EvUnlock],
       response = w, storeAfter = kv \<rparr> = (\<not> Mutex kv)"
  by (simp_all add: lockDiscipline_def heldUntilReturn_def)

subsection \<open>Objects with missing members\<close>






section \<open>The claims\<close>

text \<open>
  In the theorems below a request is served on a store whose mutex is free, as it is
  whenever no other request is inside its critical section: \<open>serveAll_returns\<close> shows
  that every request served from the new store returns and leaves the mutex free.
\<close>

text \<open>
  C1. For every \<^verbatim>\<open>/set\<close> request whose body decodes into a key and a value, the
  handler returns a response with status 200: it never calls \<^verbatim>\<open>WriteHeader\<close>, so the
  first write of the body sets the status OK. The body is the decimal text of the
  status code Accepted, \<^verbatim>\<open>202\<close>, followed by a newline, and the content type is
  \<^verbatim>\<open>text/plain\<close>.
\<close>

theorem C1_set_acknowledgement:
  assumes "decodeSetRequest (ReqBody r) = Inr p" and "\<not> Mutex kv"
  shows "map_option response (serveOne SetHandler r kv) =
           Some \<lparr> Header = [''Content-Type'' \<mapsto> ''text/plain''], Code = 200,
                  wroteHeader = True, Body = [Text (''202'' @ newline)] \<rparr>"
  using SetHandler_decoded [OF assms] by (simp add: StatusOK_def)

theorem C1_set_acknowledgement_witness:
  "decodeSetRequest (ReqBody validSetRequest) = Inr \<lparr> setKey = ''test'', setValue = ''value'' \<rparr> \<and>
   \<not> Mutex newStore \<and>
   map_option response (serveOne SetHandler validSetRequest newStore) =
     Some \<lparr> Header = [''Content-Type'' \<mapsto> ''text/plain''], Code = 200,
            wroteHeader = True, Body = [Text (''202'' @ newline)] \<rparr>"
  using decode_validSetRequest newStore_free
    C1_set_acknowledgement [OF decode_validSetRequest newStore_free]
  by simp

text \<open>
  The status of the acknowledgement is not Accepted. On the valid request of the
  repository's own test the body decodes, and the status of the response is 200, not 202.
\<close>

theorem C1_status_not_accepted:
  "decodeSetRequest (ReqBody validSetRequest) = Inr \<lparr> setKey = ''test'', setValue = ''value'' \<rparr> \<and>
   map_option (Code \<circ> response) (serveOne SetHandler validSetRequest newStore) = Some 200 \<and>
   StatusAccepted = 202"
  using decode_validSetRequest SetHandler_decoded [OF decode_validSetRequest newStore_free]
  by (simp add: StatusOK_def StatusAccepted_def)

text \<open>
  C2. With no flags and \<^verbatim>\<open>SHUTDOWN_TIMEOUT=5s\<close> in the environment, \<^verbatim>\<open>main\<close> does not
  resolve a configuration: \<^verbatim>\<open>useEnvOrDefaultIfNotSet\<close> returns the environment value as
  the string it is, and the assertion of that value to \<^verbatim>\<open>time.Duration\<close> panics.
\<close>

theorem C2_env_shutdown_timeout_panics:
  "mainConfig [''SHUTDOWN_TIMEOUT'' \<mapsto> ''5s''] noFlags [] =
     Inl (InterfaceConversion ''string'' ''time.Duration'')"
  by (rule mainConfig_shutdown_env_set) (simp add: Getenv_def)

text \<open>
  C3. For all keys \<open>k\<close> and values \<open>v\<close>: after a \<^verbatim>\<open>/set\<close> request that decodes to
  \<open>(k, v)\<close>, the map holds \<open>v\<close> at \<open>k\<close> (the lookup returns \<open>v\<close> and found), and a
  \<^verbatim>\<open>/get\<close> request that decodes to \<open>k\<close> is answered with status OK and the encoding
  of the value \<open>v\<close>.
\<close>

theorem C3_put_get_round_trip:
  assumes "decodeSetRequest (ReqBody rs) = Inr \<lparr> setKey = k, setValue = v \<rparr>"
    and "decodeGetRequest (ReqBody rg) = Inr \<lparr> getKey = k \<rparr>"
    and "\<not> Mutex kv"
  shows "\<exists>x y. serveOne SetHandler rs kv = Some x \<and>
               kvMap (storeAfter x) k = Some v \<and>
               serveOne GetHandler rg (storeAfter x) = Some y \<and>
               Code (response y) = StatusOK \<and>
               Body (response y) = [Json (JObject [(''value'', JString v)])]"
proof -
  let ?kv = "kv\<lparr>kvMap := (kvMap kv)(k \<mapsto> v)\<rparr>"
  have free: "\<not> Mutex ?kv" using assms(3) by simp
  have found: "kvMap ?kv (getKey \<lparr> getKey = k \<rparr>) = Some v" by simp
  from decodeSetRequest_valid [OF assms(1)] have valid: "toValidUTF8 v = v" by simp
  show ?thesis
    using SetHandler_decoded [OF assms(1) assms(3)]
      GetHandler_present [OF assms(2) free found] valid
    by simp
qed

theorem C3_put_get_round_trip_witness:
  "decodeSetRequest (ReqBody (setRequestOf ''a'' ''1'')) = Inr \<lparr> setKey = ''a'', setValue = ''1'' \<rparr> \<and>
   decodeGetRequest (ReqBody (getRequestOf ''a'')) = Inr \<lparr> getKey = ''a'' \<rparr> \<and>
   \<not> Mutex newStore \<and>
   (\<exists>x y. serveOne SetHandler (setRequestOf ''a'' ''1'') newStore = Some x \<and>
          kvMap (storeAfter x) ''a'' = Some ''1'' \<and>
          serveOne GetHandler (getRequestOf ''a'') (storeAfter x) = Some y \<and>
          Code (response y) = StatusOK \<and>
          Body (response y) = [Json (JObject [(''value'', JString ''1'')])])"
  using C3_put_get_round_trip [OF decode_set_a1 decode_get_a newStore_free]
    decode_set_a1 decode_get_a newStore_free
  by simp

text \<open>
  C4. For every \<^verbatim>\<open>/set\<close> request whose body fails to decode, the handler answers with
  status 400, a client error, and writes the message of the decode error as the body
  (\<^verbatim>\<open>http.Error\<close> ends it with a newline); the store it leaves is the store it found,
  the map and the mutex untouched.
\<close>

theorem C4_decode_failure_isolation:
  assumes "decodeSetRequest (ReqBody r) = Inl err"
  shows "serveOne SetHandler r kv =
           Some \<lparr> events = [EvReadBody, EvWriteHeader StatusBadRequest,
                            EvWrite (Text (errorText err @ newline))],
                  response = \<lparr> Header = [''Content-Type'' \<mapsto> ''text/plain; charset=utf-8'',
                                          ''X-Content-Type-Options'' \<mapsto> ''nosniff''],
                               Code = StatusBadRequest, wroteHeader = True,
                               Body = [Text (errorText err @ newline)] \<rparr>,
                  storeAfter = kv \<rparr> \<and>
         StatusBadRequest = 400"
  using SetHandler_failed [OF assms] by (simp add: StatusBadRequest_def)

theorem C4_decode_failure_isolation_witness:
  "decodeSetRequest (ReqBody invalidSetRequest) =
     Inl (UnmarshalTypeError ''string'' ''main.SetRequest'' [] []) \<and>
   serveOne SetHandler invalidSetRequest newStore =
     Some \<lparr> events = [EvReadBody, EvWriteHeader 400,
               EvWrite (Text (''json: cannot unmarshal string into Go value of type main.SetRequest''
                              @ newline))],
            response = \<lparr> Header = [''Content-Type'' \<mapsto> ''text/plain; charset=utf-8'',
                                    ''X-Content-Type-Options'' \<mapsto> ''nosniff''],
                         Code = 400, wroteHeader = True,
                         Body = [Text (''json: cannot unmarshal string into Go value of type main.SetRequest''
                                       @ newline)] \<rparr>,
            storeAfter = newStore \<rparr>"
  using C4_decode_failure_isolation [OF decode_invalidSetRequest, of newStore]
    decode_invalidSetRequest
  by simp

text \<open>
  C5. For every key \<open>k\<close> and every \<^verbatim>\<open>/get\<close> request that decodes to \<open>k\<close>: after any
  history of requests served from the new store, none of which writes \<open>k\<close>, the map has no
  entry at \<open>k\<close> (the lookup returns not found) and the handler answers with status 404 and
  the fixed message \<^verbatim>\<open>Key not found\<close>. After any history of requests served from the new
  store, when the map holds a value at \<open>k\<close> the handler answers with status 200 and the
  encoding of that value. On any store at all that holds a value at \<open>k\<close> it answers with
  status 200 and the encoding of the value as valid UTF-8, which is the value itself for
  every value that a \<^verbatim>\<open>/set\<close> request has stored.
\<close>

theorem C5_absent_and_present:
  assumes "decodeGetRequest (ReqBody r) = Inr \<lparr> getKey = k \<rparr>"
  shows "(neverWritten k history \<longrightarrow>
           (\<exists>ws kv. serveAll env history newStore = Some (ws, kv) \<and>
              kvMap kv k = None \<and>
              map_option response (serveOne GetHandler r kv) =
                Some \<lparr> Header = [''Content-Type'' \<mapsto> ''text/plain; charset=utf-8'',
                                 ''X-Content-Type-Options'' \<mapsto> ''nosniff''],
                       Code = StatusNotFound, wroteHeader = True,
                       Body = [Text (''Key not found'' @ newline)] \<rparr>)) \<and>
         (\<exists>ws kv. serveAll env history newStore = Some (ws, kv) \<and>
            (\<forall>v. kvMap kv k = Some v \<longrightarrow>
               map_option response (serveOne GetHandler r kv) =
                 Some \<lparr> Header = [''Content-Type'' \<mapsto> ''application/json''],
                        Code = StatusOK, wroteHeader = True,
                        Body = [Json (JObject [(''value'', JString v)])] \<rparr>)) \<and>
         (\<not> Mutex kv' \<and> kvMap kv' k = Some v \<longrightarrow>
            map_option response (serveOne GetHandler r kv') =
              Some \<lparr> Header = [''Content-Type'' \<mapsto> ''application/json''],
                     Code = StatusOK, wroteHeader = True,
                     Body = [Json (JObject [(''value'', JString (toValidUTF8 v))])] \<rparr>) \<and>
         StatusNotFound = 404 \<and> StatusOK = 200"
proof -
  from serveAll_newStore [of env history k] obtain ws kv where
    run: "serveAll env history newStore = Some (ws, kv)" and free: "\<not> Mutex kv"
    and none: "neverWritten k history \<longrightarrow> kvMap kv k = None"
    and valid: "\<forall>v. kvMap kv k = Some v \<longrightarrow> toValidUTF8 v = v"
    by blast
  have present: "map_option response (serveOne GetHandler r s) =
              Some \<lparr> Header = [''Content-Type'' \<mapsto> ''application/json''],
                     Code = StatusOK, wroteHeader = True,
                     Body = [Json (JObject [(''value'', JString (toValidUTF8 u))])] \<rparr>"
    if "\<not> Mutex s" and "kvMap s k = Some u" for s u
  proof -
    from that(2) have "kvMap s (getKey \<lparr> getKey = k \<rparr>) = Some u" by simp
    from GetHandler_present [OF assms that(1) this] show ?thesis by simp
  qed
  have absent: "\<exists>ws kv. serveAll env history newStore = Some (ws, kv) \<and>
              kvMap kv k = None \<and>
              map_option response (serveOne GetHandler r kv) =
                Some \<lparr> Header = [''Content-Type'' \<mapsto> ''text/plain; charset=utf-8'',
                                 ''X-Content-Type-Options'' \<mapsto> ''nosniff''],
                       Code = StatusNotFound, wroteHeader = True,
                       Body = [Text (''Key not found'' @ newline)] \<rparr>"
    if nw: "neverWritten k history"
  proof -
    from none nw have n: "kvMap kv k = None" by simp
    then have "kvMap kv (getKey \<lparr> getKey = k \<rparr>) = None" by simp
    from GetHandler_absent [OF assms free this] run n show ?thesis by simp
  qed
  have reached: "\<exists>ws kv. serveAll env history newStore = Some (ws, kv) \<and>
            (\<forall>v. kvMap kv k = Some v \<longrightarrow>
               map_option response (serveOne GetHandler r kv) =
                 Some \<lparr> Header = [''Content-Type'' \<mapsto> ''application/json''],
                        Code = StatusOK, wroteHeader = True,
                        Body = [Json (JObject [(''value'', JString v)])] \<rparr>)"
  proof -
    have "\<forall>v. kvMap kv k = Some v \<longrightarrow>
               map_option response (serveOne GetHandler r kv) =
                 Some \<lparr> Header = [''Content-Type'' \<mapsto> ''application/json''],
                        Code = StatusOK, wroteHeader = True,
                        Body = [Json (JObject [(''value'', JString v)])] \<rparr>"
      using present [OF free] valid by simp
    with run show ?thesis by blast
  qed
  show ?thesis
    using absent reached present [of kv' v] by (simp add: StatusNotFound_def StatusOK_def)
qed

theorem C5_absent_and_present_witness:
  "decodeGetRequest (ReqBody (getRequestOf ''missing'')) = Inr \<lparr> getKey = ''missing'' \<rparr> \<and>
   neverWritten ''missing'' sampleHistory \<and>
   (\<exists>ws kv. serveAll loggingConfig sampleHistory newStore = Some (ws, kv) \<and>
      kvMap kv ''missing'' = None \<and>
      map_option (Code \<circ> response) (serveOne GetHandler (getRequestOf ''missing'') kv) = Some 404) \<and>
   decodeGetRequest (ReqBody (getRequestOf ''a'')) = Inr \<lparr> getKey = ''a'' \<rparr> \<and>
   (\<exists>ws kv. serveAll loggingConfig sampleHistory newStore = Some (ws, kv) \<and>
      kvMap kv ''a'' = Some ''1'' \<and>
      map_option response (serveOne GetHandler (getRequestOf ''a'') kv) =
        Some \<lparr> Header = [''Content-Type'' \<mapsto> ''application/json''],
               Code = 200, wroteHeader = True,
               Body = [Json (JObject [(''value'', JString ''1'')])] \<rparr>) \<and>
   \<not> Mutex sampleStore \<and> kvMap sampleStore ''missing'' = Some ''x'' \<and>
   map_option response (serveOne GetHandler (getRequestOf ''missing'') sampleStore) =
     Some \<lparr> Header = [''Content-Type'' \<mapsto> ''application/json''],
            Code = 200, wroteHeader = True,
            Body = [Json (JObject [(''value'', JString ''x'')])] \<rparr>"
proof -
  have h1: "\<not> Mutex sampleStore" and h2: "kvMap sampleStore ''missing'' = Some ''x''"
    by (simp_all add: sampleStore_def)
  note m = C5_absent_and_present [OF decode_get_missing, of sampleHistory loggingConfig
      sampleStore "''x''"]
  note a = C5_absent_and_present [OF decode_get_a, of sampleHistory loggingConfig
      sampleStore "''x''"]
  from m sampleHistory_never have absent:
    "\<exists>ws kv. serveAll loggingConfig sampleHistory newStore = Some (ws, kv) \<and>
      kvMap kv ''missing'' = None \<and>
      map_option (Code \<circ> response) (serveOne GetHandler (getRequestOf ''missing'') kv) = Some 404"
    by (auto simp add: StatusNotFound_def)
  from sampleHistory_run obtain ws0 where
    run: "serveAll loggingConfig sampleHistory newStore =
            Some (ws0, \<lparr> Mutex = False, kvMap = [''a'' \<mapsto> ''1''] \<rparr>)"
    by blast
  from a run have present:
    "\<exists>ws kv. serveAll loggingConfig sampleHistory newStore = Some (ws, kv) \<and>
      kvMap kv ''a'' = Some ''1'' \<and>
      map_option response (serveOne GetHandler (getRequestOf ''a'') kv) =
        Some \<lparr> Header = [''Content-Type'' \<mapsto> ''application/json''],
               Code = 200, wroteHeader = True,
               Body = [Json (JObject [(''value'', JString ''1'')])] \<rparr>"
    by (auto simp add: StatusOK_def)
  from m h1 h2 have stored:
    "map_option response (serveOne GetHandler (getRequestOf ''missing'') sampleStore) =
     Some \<lparr> Header = [''Content-Type'' \<mapsto> ''application/json''],
            Code = 200, wroteHeader = True,
            Body = [Json (JObject [(''value'', JString ''x'')])] \<rparr>"
    by (simp add: toValidUTF8_ascii)
  show ?thesis
    using absent present stored h1 h2 sampleHistory_never decode_get_missing decode_get_a
    by simp
qed

text \<open>
  C6. For all keys \<open>k\<close> and values \<open>v1\<close>, \<open>v2\<close>: after a \<^verbatim>\<open>/set\<close> request that decodes
  to \<open>(k, v1)\<close> and then one that decodes to \<open>(k, v2)\<close>, the map holds \<open>v2\<close> at \<open>k\<close>, and
  a \<^verbatim>\<open>/get\<close> request for \<open>k\<close> is answered with status OK and the encoding of \<open>v2\<close>: the
  last writer wins.
\<close>

theorem C6_last_writer_wins:
  assumes "decodeSetRequest (ReqBody r1) = Inr \<lparr> setKey = k, setValue = v1 \<rparr>"
    and "decodeSetRequest (ReqBody r2) = Inr \<lparr> setKey = k, setValue = v2 \<rparr>"
    and "decodeGetRequest (ReqBody rg) = Inr \<lparr> getKey = k \<rparr>"
    and "\<not> Mutex kv"
  shows "\<exists>x y z. serveOne SetHandler r1 kv = Some x \<and>
               serveOne SetHandler r2 (storeAfter x) = Some y \<and>
               kvMap (storeAfter y) k = Some v2 \<and>
               serveOne GetHandler rg (storeAfter y) = Some z \<and>
               Code (response z) = StatusOK \<and>
               Body (response z) = [Json (JObject [(''value'', JString v2)])]"
proof -
  let ?kv1 = "kv\<lparr>kvMap := (kvMap kv)(k \<mapsto> v1)\<rparr>"
  let ?kv2 = "?kv1\<lparr>kvMap := (kvMap ?kv1)(k \<mapsto> v2)\<rparr>"
  have free1: "\<not> Mutex ?kv1" using assms(4) by simp
  have free2: "\<not> Mutex ?kv2" using assms(4) by simp
  have found: "kvMap ?kv2 (getKey \<lparr> getKey = k \<rparr>) = Some v2" by simp
  from decodeSetRequest_valid [OF assms(2)] have valid: "toValidUTF8 v2 = v2" by simp
  show ?thesis
    using SetHandler_decoded [OF assms(1) assms(4)] SetHandler_decoded [OF assms(2) free1]
      GetHandler_present [OF assms(3) free2 found] valid
    by simp
qed

theorem C6_last_writer_wins_witness:
  "decodeSetRequest (ReqBody (setRequestOf ''a'' ''1'')) = Inr \<lparr> setKey = ''a'', setValue = ''1'' \<rparr> \<and>
   decodeSetRequest (ReqBody (setRequestOf ''a'' ''2'')) = Inr \<lparr> setKey = ''a'', setValue = ''2'' \<rparr> \<and>
   decodeGetRequest (ReqBody (getRequestOf ''a'')) = Inr \<lparr> getKey = ''a'' \<rparr> \<and>
   \<not> Mutex newStore \<and>
   (\<exists>x y z. serveOne SetHandler (setRequestOf ''a'' ''1'') newStore = Some x \<and>
          serveOne SetHandler (setRequestOf ''a'' ''2'') (storeAfter x) = Some y \<and>
          kvMap (storeAfter y) ''a'' = Some ''2'' \<and>
          serveOne GetHandler (getRequestOf ''a'') (storeAfter y) = Some z \<and>
          Code (response z) = StatusOK \<and>
          Body (response z) = [Json (JObject [(''value'', JString ''2'')])])"
  using C6_last_writer_wins [OF decode_set_a1 decode_set_a2 decode_get_a newStore_free]
    decode_set_a1 decode_set_a2 decode_get_a newStore_free
  by simp

text \<open>
  C7. \<^verbatim>\<open>useEnvOrDefaultIfNotSet\<close> returns the default for an empty string, whatever the
  default is, and for a zero duration when the default is a duration. In \<^verbatim>\<open>main\<close> the
  environment reaches it as strings only. When \<^verbatim>\<open>SHUTDOWN_TIMEOUT\<close> and
  \<^verbatim>\<open>ENABLE_LOGGING_MIDDLEWARE\<close> are not set or empty, \<^verbatim>\<open>main\<close> builds its
  configuration: the address is the flag, else a non-empty \<^verbatim>\<open>SERVER_ADDRESS\<close>, else
  \<^verbatim>\<open>localhost:8080\<close>; the shutdown timeout is the flag as it is given, a zero flag
  included, and ten seconds (ten times 1000000000 nanoseconds, without overflow) when the
  flag is not given; the middleware is the flag, else disabled.
\<close>

theorem C7_absent_values_use_default:
  assumes "Getenv environ ''SHUTDOWN_TIMEOUT'' = []"
    and "Getenv environ ''ENABLE_LOGGING_MIDDLEWARE'' = []"
  shows "useEnvOrDefaultIfNotSet (IString []) d = Inr d \<and>
         useEnvOrDefaultIfNotSet (IDuration 0) (IDuration t) = Inr (IDuration t) \<and>
         mainConfig environ flags version =
           Inr \<lparr> ServiceName = ''key-value-service-v1'',
                 ServerAddress =
                   flagOr (address flags)
                     (if Getenv environ ''SERVER_ADDRESS'' = [] then ''localhost:8080''
                      else Getenv environ ''SERVER_ADDRESS''),
                 ShutdownTimeout = flagOr (shutdown_timeout flags) (Second * 10),
                 EnableLoggingMiddleware = flagOr (enable_logging_middleware flags) False,
                 ServiceVersion = version \<rparr> \<and>
         (shutdown_timeout flags = None \<longrightarrow>
            map_sum id ShutdownTimeout (mainConfig environ flags version) = Inr (Second * 10)) \<and>
         (\<forall>x. shutdown_timeout flags = Some x \<longrightarrow>
            map_sum id ShutdownTimeout (mainConfig environ flags version) = Inr x) \<and>
         unat (Second * 10) = 10 * 1000000000"
proof -
  have sp: "serverPortDefault environ =
              Inr (if Getenv environ ''SERVER_ADDRESS'' = [] then ''localhost:8080''
                   else Getenv environ ''SERVER_ADDRESS'')"
    by (simp add: serverPortDefault_def useEnv_empty_string useEnv_nonempty_string
        assertString_def)
  have cfg: "mainConfig environ flags version =
           Inr \<lparr> ServiceName = ''key-value-service-v1'',
                 ServerAddress =
                   flagOr (address flags)
                     (if Getenv environ ''SERVER_ADDRESS'' = [] then ''localhost:8080''
                      else Getenv environ ''SERVER_ADDRESS''),
                 ShutdownTimeout = flagOr (shutdown_timeout flags) (Second * 10),
                 EnableLoggingMiddleware = flagOr (enable_logging_middleware flags) False,
                 ServiceVersion = version \<rparr>"
    by (simp add: mainConfig_def sp shutdownTimeoutDefault_noenv [OF assms(1)]
        enableLoggingMiddlewareDefault_unset [OF assms(2)])
  show ?thesis
    by (simp add: cfg useEnv_empty_string useEnv_zero_duration ten_seconds flagOr_def)
qed

theorem C7_absent_values_use_default_witness:
  "Getenv Map.empty ''SHUTDOWN_TIMEOUT'' = [] \<and>
   Getenv Map.empty ''ENABLE_LOGGING_MIDDLEWARE'' = [] \<and>
   shutdown_timeout noFlags = None \<and>
   map_sum id ShutdownTimeout (mainConfig Map.empty noFlags []) = Inr (Second * 10) \<and>
   map_sum id ServerAddress (mainConfig Map.empty noFlags []) = Inr ''localhost:8080'' \<and>
   map_sum id EnableLoggingMiddleware (mainConfig Map.empty noFlags []) = Inr False"
proof -
  have h1: "Getenv Map.empty ''SHUTDOWN_TIMEOUT'' = []"
    and h2: "Getenv Map.empty ''ENABLE_LOGGING_MIDDLEWARE'' = []"
    and h3: "Getenv Map.empty ''SERVER_ADDRESS'' = []"
    by (simp_all add: Getenv_def)
  have f: "shutdown_timeout noFlags = None" "address noFlags = None"
    "enable_logging_middleware noFlags = None"
    by (simp_all add: noFlags_def)
  show ?thesis
    using C7_absent_values_use_default [OF h1 h2, of "IString []" 0 noFlags "[]"] h1 h2 h3 f
    by (simp add: flagOr_def)
qed

text \<open>
  A zero duration that is present is not always treated as absent, and an unset
  \<^verbatim>\<open>SHUTDOWN_TIMEOUT\<close> does not always give a resolved timeout. With the command line
  \<^verbatim>\<open>-shutdown-timeout=0\<close> and an empty environment the resolved shutdown timeout is zero,
  not ten seconds; and with \<^verbatim>\<open>ENABLE_LOGGING_MIDDLEWARE=true\<close>, no flags and
  \<^verbatim>\<open>SHUTDOWN_TIMEOUT\<close> unset, \<^verbatim>\<open>main\<close> panics in the assertion to \<^verbatim>\<open>bool\<close>.
\<close>

theorem C7_zero_flag_not_default:
  "map_sum id ShutdownTimeout (mainConfig Map.empty zeroTimeoutFlags []) = Inr 0 \<and>
   Second * 10 \<noteq> 0 \<and>
   mainConfig [''ENABLE_LOGGING_MIDDLEWARE'' \<mapsto> ''true''] noFlags [] =
     Inl (InterfaceConversion ''string'' ''bool'')"
proof -
  have "unat (Second * 10) \<noteq> unat (0 :: 64 word)" by (simp add: ten_seconds)
  then have nz: "Second * 10 \<noteq> 0" by auto
  have h1: "Getenv [''ENABLE_LOGGING_MIDDLEWARE'' \<mapsto> ''true''] ''SHUTDOWN_TIMEOUT'' = []"
    by (simp add: Getenv_def)
  obtain a where sp:
    "serverPortDefault [''ENABLE_LOGGING_MIDDLEWARE'' \<mapsto> ''true''] = Inr a"
    using serverPortDefault_returns by blast
  have el: "enableLoggingMiddlewareDefault [''ENABLE_LOGGING_MIDDLEWARE'' \<mapsto> ''true''] =
              Inl (InterfaceConversion ''string'' ''bool'')"
    by (simp add: enableLoggingMiddlewareDefault_def Getenv_def useEnv_nonempty_string
        assertBool_def)
  have panic: "mainConfig [''ENABLE_LOGGING_MIDDLEWARE'' \<mapsto> ''true''] noFlags [] =
     Inl (InterfaceConversion ''string'' ''bool'')"
    by (simp add: mainConfig_def sp shutdownTimeoutDefault_noenv [OF h1] el)
  have e1: "Getenv Map.empty ''SHUTDOWN_TIMEOUT'' = []"
    and e2: "Getenv Map.empty ''ENABLE_LOGGING_MIDDLEWARE'' = []"
    by (simp_all add: Getenv_def)
  obtain b where sp0: "serverPortDefault Map.empty = Inr b"
    using serverPortDefault_returns by blast
  have zero: "map_sum id ShutdownTimeout (mainConfig Map.empty zeroTimeoutFlags []) = Inr 0"
    by (simp add: mainConfig_def sp0 shutdownTimeoutDefault_noenv [OF e1]
        enableLoggingMiddlewareDefault_unset [OF e2] flagOr_def zeroTimeoutFlags_def)
  show ?thesis using zero nz panic by simp
qed

text \<open>
  C8. For every wrapped handler, every request, every store and every response writer, the
  middleware does what the wrapped handler does, once, after the log lines of the request:
  it returns when the wrapped handler returns, with the same store and the same response
  writer, and its trace is the log lines followed by the trace of the wrapped handler.
  Served on a store, the response and the store are those of the wrapped handler served
  directly.
\<close>

theorem C8_middleware_delegates:
  "MiddlewareLogRequest next r s =
     (case next r s of
        None \<Rightarrow> None
      | Some (es, s') \<Rightarrow> Some (map EvLog (requestLines r) @ es, s')) \<and>
   map_option response (serveOne (MiddlewareLogRequest next) r kv) =
     map_option response (serveOne next r kv) \<and>
   map_option storeAfter (serveOne (MiddlewareLogRequest next) r kv) =
     map_option storeAfter (serveOne next r kv) \<and>
   map_option events (serveOne (MiddlewareLogRequest next) r kv) =
     map_option (\<lambda>x. map EvLog (requestLines r) @ events x) (serveOne next r kv)"
  by (simp add: MiddlewareLogRequest_run serveOne_Middleware option.map_comp comp_def)

text \<open>
  C9. Each of the two store handlers, entered with the mutex free, returns, and its trace
  is the following. On a decode failure: the read of the body, then the two writes of the
  error response; the mutex is never taken. When the body decodes: the read of the body,
  then \<^verbatim>\<open>Lock\<close>, then the map access, then the writes of the response (the
  acknowledgement, the not-found error, or the encoded value), then \<^verbatim>\<open>Unlock\<close> as the
  last event. So every map access happens while the mutex is held; the request body is read
  before the mutex is taken; once taken, the mutex is held until the handler returns, and
  is free when it has returned; and when the mutex is taken, every write to the response
  happens while it is held.
\<close>

theorem C9_lock_discipline:
  assumes "\<not> Mutex kv"
  shows "(\<exists>x. serveOne SetHandler r kv = Some x \<and> lockDiscipline x \<and>
              events x =
                (case decodeSetRequest (ReqBody r) of
                   Inl err \<Rightarrow>
                     [EvReadBody, EvWriteHeader StatusBadRequest,
                      EvWrite (Text (errorText err @ newline))]
                 | Inr p \<Rightarrow>
                     [EvReadBody, EvLock, EvMapAssign (setKey p) (setValue p),
                      EvWrite (Text (''202'' @ newline)), EvUnlock])) \<and>
         (\<exists>x. serveOne GetHandler r kv = Some x \<and> lockDiscipline x \<and>
              events x =
                (case decodeGetRequest (ReqBody r) of
                   Inl err \<Rightarrow>
                     [EvReadBody, EvWriteHeader StatusBadRequest,
                      EvWrite (Text (errorText err @ newline))]
                 | Inr p \<Rightarrow>
                     (case kvMap kv (getKey p) of
                        None \<Rightarrow>
                          [EvReadBody, EvLock, EvMapLookup (getKey p),
                           EvWriteHeader StatusNotFound,
                           EvWrite (Text (''Key not found'' @ newline)), EvUnlock]
                      | Some v \<Rightarrow>
                          [EvReadBody, EvLock, EvMapLookup (getKey p),
                           EvWrite (Json (JObject [(''value'', JString (toValidUTF8 v))])),
                           EvUnlock])))"
proof
  show "\<exists>x. serveOne SetHandler r kv = Some x \<and> lockDiscipline x \<and>
              events x =
                (case decodeSetRequest (ReqBody r) of
                   Inl err \<Rightarrow>
                     [EvReadBody, EvWriteHeader StatusBadRequest,
                      EvWrite (Text (errorText err @ newline))]
                 | Inr p \<Rightarrow>
                     [EvReadBody, EvLock, EvMapAssign (setKey p) (setValue p),
                      EvWrite (Text (''202'' @ newline)), EvUnlock])"
  proof (cases "decodeSetRequest (ReqBody r)")
    case (Inl err)
    with assms show ?thesis by (simp add: SetHandler_failed lockDiscipline_cases)
  next
    case (Inr p)
    with assms show ?thesis by (simp add: SetHandler_decoded lockDiscipline_cases)
  qed
  show "\<exists>x. serveOne GetHandler r kv = Some x \<and> lockDiscipline x \<and>
              events x =
                (case decodeGetRequest (ReqBody r) of
                   Inl err \<Rightarrow>
                     [EvReadBody, EvWriteHeader StatusBadRequest,
                      EvWrite (Text (errorText err @ newline))]
                 | Inr p \<Rightarrow>
                     (case kvMap kv (getKey p) of
                        None \<Rightarrow>
                          [EvReadBody, EvLock, EvMapLookup (getKey p),
                           EvWriteHeader StatusNotFound,
                           EvWrite (Text (''Key not found'' @ newline)), EvUnlock]
                      | Some v \<Rightarrow>
                          [EvReadBody, EvLock, EvMapLookup (getKey p),
                           EvWrite (Json (JObject [(''value'', JString (toValidUTF8 v))])),
                           EvUnlock]))"
  proof (cases "decodeGetRequest (ReqBody r)")
    case (Inl err)
    with assms show ?thesis by (simp add: GetHandler_failed lockDiscipline_cases)
  next
    case (Inr p)
    show ?thesis
    proof (cases "kvMap kv (getKey p)")
      case None
      with Inr assms show ?thesis by (simp add: GetHandler_absent lockDiscipline_cases)
    next
      case (Some v)
      with Inr assms show ?thesis by (simp add: GetHandler_present lockDiscipline_cases)
    qed
  qed
qed

theorem C9_lock_discipline_witness:
  "\<not> Mutex newStore \<and>
   (\<exists>x. serveOne SetHandler validSetRequest newStore = Some x \<and> lockDiscipline x \<and>
        events x = [EvReadBody, EvLock, EvMapAssign ''test'' ''value'',
                    EvWrite (Text (''202'' @ newline)), EvUnlock]) \<and>
   (\<exists>x. serveOne GetHandler (getRequestOf ''a'') newStore = Some x \<and> lockDiscipline x \<and>
        events x = [EvReadBody, EvLock, EvMapLookup ''a'', EvWriteHeader StatusNotFound,
                    EvWrite (Text (''Key not found'' @ newline)), EvUnlock])"
  using C9_lock_discipline [OF newStore_free, of validSetRequest]
    C9_lock_discipline [OF newStore_free, of "getRequestOf ''a''"]
    newStore_free decode_validSetRequest decode_get_a
  by (simp add: newStore_def)

text \<open>
  The mutex is held across a write to the response. On the valid request of the
  repository's test the acknowledgement is written between \<^verbatim>\<open>Lock\<close> and
  \<^verbatim>\<open>Unlock\<close>.
\<close>

theorem C9_response_written_under_lock:
  "map_option events (serveOne SetHandler validSetRequest newStore) =
     Some [EvReadBody, EvLock, EvMapAssign ''test'' ''value'', EvWrite (Text (''202'' @ newline)),
           EvUnlock] \<and>
   \<not> ioOutsideLock False
       [EvReadBody, EvLock, EvMapAssign ''test'' ''value'', EvWrite (Text (''202'' @ newline)),
        EvUnlock]"
  using SetHandler_decoded [OF decode_validSetRequest newStore_free] by simp




end
